theory Spec2Isabelle
  imports Complex_Main "HOL-Library.Word"
begin

section \<open>Numbers, vectors and matrices\<close>

text \<open>
  The slice-view panel (\<^verbatim>\<open>src/neuroglancer/sliceview/panel.ts\<close>) computes with
  TypeScript \<^verbatim>\<open>number\<close>s and with the vectors and matrices of the gl-matrix
  package. A \<^verbatim>\<open>number\<close> is modelled as a \<^typ>\<open>real\<close>, and arithmetic on
  numbers is exact: the rounding of double-precision arithmetic is left out. A \<^verbatim>\<open>vec3\<close> is a triple, a \<^verbatim>\<open>Mat4\<close> is the list of its
  sixteen entries in gl-matrix's column-major order, read with \<open>!\<close> as the source
  reads \<^verbatim>\<open>m[i]\<close>. Both are \<^verbatim>\<open>Float32Array\<close>s in gl-matrix: every store into
  one rounds the number stored to the nearest float32.
\<close>

type_synonym vec3 = "real \<times> real \<times> real"

type_synonym vec4 = "real \<times> real \<times> real \<times> real"

type_synonym mat4 = "real list"

text \<open>
  Rounding to the nearest integer, a tie going to the even one, as IEEE 754 rounds.
\<close>

definition roundTiesToEven :: "real \<Rightarrow> int" where
  "roundTiesToEven x =
     (let n = \<lfloor>x\<rfloor>;
          d = x - of_int n
      in if d < 1 / 2 then n else if 1 / 2 < d then n + 1 else if even n then n else n + 1)"

text \<open>
  The number a store into a \<^verbatim>\<open>Float32Array\<close> keeps: the nearest float32, with 24
  significant bits and exponents from -126 (below \<open>2 powi (- 126)\<close> the spacing stays
  \<open>2 powi (- 149)\<close>). A real is finite, so the model ends at the largest finite
  float32: \<^verbatim>\<open>Infinity\<close> and \<^verbatim>\<open>NaN\<close> are outside it.
\<close>

definition f32 :: "real \<Rightarrow> real" where
  "f32 x =
     (if x = 0 then 0
      else
        let e = max \<lfloor>log 2 \<bar>x\<bar>\<rfloor> (- 126);
            ulp = 2 powi (e - 23)
        in of_int (roundTiesToEven (x / ulp)) * ulp)"



text \<open>
  \<^verbatim>\<open>vec3.transformMat4(out, a, m)\<close>: the vector is transformed as a point (fourth
  component 1), so the translation column \<^verbatim>\<open>m[12..14]\<close> is added, and the result is
  divided by \<^verbatim>\<open>w = m[3]*x + m[7]*y + m[11]*z + m[15]\<close>, with \<^verbatim>\<open>w = w || 1.0\<close>.
  Each quotient is stored into the \<^verbatim>\<open>Float32Array\<close> \<^verbatim>\<open>out\<close>.
\<close>

fun transformMat4 :: "vec3 \<Rightarrow> mat4 \<Rightarrow> vec3" where
  "transformMat4 (x, y, z) m =
     (let w0 = m ! 3 * x + m ! 7 * y + m ! 11 * z + m ! 15;
          w = (if w0 = 0 then 1 else w0)
      in (f32 ((m ! 0 * x + m ! 4 * y + m ! 8 * z + m ! 12) / w),
          f32 ((m ! 1 * x + m ! 5 * y + m ! 9 * z + m ! 13) / w),
          f32 ((m ! 2 * x + m ! 6 * y + m ! 10 * z + m ! 14) / w)))"

text \<open>\<^verbatim>\<open>vec3.set(out, x, y, z)\<close>: the three numbers stored into \<^verbatim>\<open>out\<close>.\<close>

definition vec3_set :: "real \<Rightarrow> real \<Rightarrow> real \<Rightarrow> vec3" where
  "vec3_set x y z = (f32 x, f32 y, f32 z)"





definition identityMat4 :: mat4 where
  "identityMat4 = [1, 0, 0, 0,  0, 1, 0, 0,  0, 0, 1, 0,  0, 0, 0, 1]"

text \<open>An angle given in degrees, in radians: the source's \<^verbatim>\<open>d * Math.PI / 180.0\<close>.\<close>

definition degrees :: "real \<Rightarrow> real" where
  "degrees d = d * pi / 180"

section \<open>The collaborators of the panel\<close>

text \<open>
  The enum \<^verbatim>\<open>OffscreenTextures\<close>: the indices of the two attachments of the
  offscreen target, and their number.
\<close>

definition COLOR :: nat where "COLOR = 0"
definition PICK :: nat where "PICK = 1"
definition NUM_TEXTURES :: nat where "NUM_TEXTURES = 2"

text \<open>
  The slice view (\<^verbatim>\<open>this.sliceView\<close>): the fields the panel reads.
\<close>

record sliceView =
  hasValidViewport :: bool
  width :: real
  height :: real
  dataToDevice :: mat4
  viewportToData :: mat4
  viewportAxes :: "vec3 list"
  pixelSize :: real

text \<open>
  The calls the panel issues on the navigation state's pose and signals. The pose and
  the signal handlers live outside the panel; the model records each call with its
  arguments, in order.
\<close>

datatype navCall =
    RotateAbsolute vec3 real vec3
  | PositionChangedDispatch

record navigationState =
  valid :: bool
  zoomFactor :: real
  spatialCoordinates :: vec3
  navCalls :: "navCall list"


text \<open>
  Modelled from the spec: \<^verbatim>\<open>OffscreenFramebuffer\<close> is not part of the panel's
  source; the spec gives it \<^verbatim>\<open>bind(width, height)\<close>, which sizes the target,
  \<^verbatim>\<open>hasSize(w, h)\<close>, which compares the target's size with \<^verbatim>\<open>(w, h)\<close>, and a
  pixel read that returns an unsigned 32-bit value. The size is absent until the
  first bind.
\<close>

record offscreenFramebuffer =
  fbSize :: "(real \<times> real) option"
  pixels :: "nat \<Rightarrow> real \<Rightarrow> real \<Rightarrow> 32 word"


definition bind :: "real \<Rightarrow> real \<Rightarrow> offscreenFramebuffer \<Rightarrow> offscreenFramebuffer" where
  "bind w h fb = fb\<lparr>fbSize := Some (w, h)\<rparr>"


text \<open>The mouse selection state (\<^verbatim>\<open>MouseSelectionState\<close>), over layers \<open>'l\<close>.\<close>

record 'l mouseSelectionState =
  position :: vec3
  pickedRenderLayer :: "'l option"
  pickedValue :: "32 word"

text \<open>
  The render context handed to every layer: the data-to-device transform and the
  panel's pick ID manager (the object, of type \<open>'pm\<close>).
\<close>

record 'pm sliceViewPanelRenderContext =
  rc_dataToDevice :: mat4
  rc_pickIDs :: 'pm

text \<open>
  The calls \<^verbatim>\<open>draw()\<close> issues, in the order of the source: on the slice view, the
  offscreen framebuffer, the GL context, the render helpers, the pick ID manager, the
  layers and the scale bar. Each call carries its arguments, but for the textures
  handed to the two helpers: \<^verbatim>\<open>SliceViewRenderHelper.draw\<close> keeps the matrix, the
  two colours and the four numbers, \<^verbatim>\<open>OffscreenCopyHelper.draw\<close> the index of the
  attachment it copies.
\<close>

datatype ('l, 'pm) glCall =
    UpdateRendering
  | FramebufferBind real real
  | Disable_SCISSOR_TEST
  | ClearColor real real real real
  | Clear_COLOR_BUFFER_BIT
  | SliceViewRenderHelperDraw mat4 vec4 vec4 real real real real
  | GetVisibleLayers
  | PickIDsClear
  | LayerDraw 'l "'pm sliceViewPanelRenderContext"
  | DrawBuffersWEBGL "nat list"
  | AxesLineHelperDraw mat4
  | FramebufferUnbind
  | SetGLViewport
  | OffscreenCopyHelperDraw nat
  | ScaleBarUpdate

section \<open>The panel\<close>

text \<open>
  The state of a \<^verbatim>\<open>SliceViewPanel\<close>: the slice view and navigation state it
  shares with the viewer, the mouse position, the \<^verbatim>\<open>showAxisLines\<close> flag, the list
  the visible layer tracker returns, the offscreen framebuffer, the pick ID manager,
  the scale bar's \<^verbatim>\<open>dimensions\<close>, and the log of the calls \<^verbatim>\<open>draw()\<close> has issued.
\<close>

record ('l, 'pm) panel =
  sliceView :: sliceView
  navigationState :: navigationState
  mouseX :: real
  mouseY :: real
  showAxisLines :: bool
  visibleLayers :: "'l list"
  offscreenFramebuffer :: offscreenFramebuffer
  pickIDs :: 'pm
  targetLengthInPixels :: real
  nanometersPerPixel :: real
  glCalls :: "('l, 'pm) glCall list"

subsection \<open>zoomByMouse\<close>


subsection \<open>updateMouseState\<close>


subsection \<open>onMousedown and the drag callback\<close>

text \<open>
  The fields of the mouse event the handlers read; \<open>targetIsElement\<close> is the source's
  test \<^verbatim>\<open>event.target === this.element\<close>.
\<close>

record mouseEvent =
  targetIsElement :: bool
  button :: nat
  shiftKey :: bool

text \<open>
  \<^verbatim>\<open>onMousedown(e)\<close>, lines 208 to 237, up to the start of the drag. The result is
  the position captured as \<^verbatim>\<open>initialPosition\<close> when a drag starts, and \<open>None\<close> when
  the handler returns without starting one. \<open>updated\<close> is what the external
  \<^verbatim>\<open>mouseState.updateUnconditionally()\<close> returned and the viewer's mouse state after
  it. The call of the superclass handler has no part in the result and is left out.
\<close>

definition onMousedown ::
  "mouseEvent \<Rightarrow> bool \<times> 'l mouseSelectionState \<Rightarrow> ('l, 'pm) panel \<Rightarrow> vec3 option" where
  "onMousedown e updated p =
     (if \<not> targetIsElement e then None
      else if \<not> hasValidViewport (sliceView p) then None
      else if button e = 0 then
        (if fst updated then Some (position (snd updated)) else None)
      else None)"

text \<open>
  The callback handed to \<^verbatim>\<open>startRelativeMouseDrag\<close>, lines 220 to 234, for the
  captured \<open>initialPosition\<close>. With the shift key it issues two
  \<^verbatim>\<open>pose.rotateAbsolute\<close> calls. Without it, \<^verbatim>\<open>pos\<close> is the navigation state's own
  coordinate vector: \<^verbatim>\<open>vec3.set\<close> overwrites it with \<open>(deltaX, deltaY, 0)\<close>, and
  \<^verbatim>\<open>vec3.transformMat4\<close> transforms it in place.
\<close>

definition dragCallback ::
  "vec3 \<Rightarrow> mouseEvent \<Rightarrow> real \<Rightarrow> real \<Rightarrow> ('l, 'pm) panel \<Rightarrow> ('l, 'pm) panel" where
  "dragCallback initialPosition event deltaX deltaY p =
     (let nav = navigationState p
      in if shiftKey event then
           let axes = viewportAxes (sliceView p)
           in p\<lparr>navigationState :=
                  nav\<lparr>navCalls := navCalls nav @
                    [RotateAbsolute (axes ! 1) (deltaX / 4 * pi / 180) initialPosition,
                     RotateAbsolute (axes ! 0) (deltaY / 4 * pi / 180) initialPosition]\<rparr>\<rparr>
         else
           let pos0 = vec3_set deltaX deltaY 0;
               pos = transformMat4 pos0 (viewportToData (sliceView p))
           in p\<lparr>navigationState :=
                  nav\<lparr>spatialCoordinates := pos,
                      navCalls := navCalls nav @ [PositionChangedDispatch]\<rparr>\<rparr>)"


subsection \<open>draw\<close>

definition colorFactor :: vec4 where
  "colorFactor = (1, 1, 1, 1)"

definition backgroundColor :: vec4 where
  "backgroundColor = (0.5, 0.5, 0.5, 1.0)"

definition COLOR_ATTACHMENT0_WEBGL :: nat where
  "COLOR_ATTACHMENT0_WEBGL = 36064"

text \<open>
  The matrix of the axis lines, lines 143 to 159: a copy of \<^verbatim>\<open>dataToDevice\<close> with
  entries 12 to 14 and 2, 6, 10, 14 set to zero and entries 0 to 11 multiplied by
  \<^verbatim>\<open>axisLength * pixelSize\<close>, each product stored back into the
  \<^verbatim>\<open>Float32Array\<close>.
\<close>

definition axisLinesMatrix :: "sliceView \<Rightarrow> mat4" where
  "axisLinesMatrix sv =
     (let mat0 = dataToDevice sv;
          mat1 = fold (\<lambda>i mat. mat[12 + i := 0]) [0..<3] mat0;
          mat2 = fold (\<lambda>i mat. mat[2 + 4 * i := 0]) [0..<4] mat1;
          axisLength = min (width sv) (height sv) / 4 * 1.5;
          pxSize = pixelSize sv
      in fold (\<lambda>i mat. mat[i := f32 (mat ! i * (axisLength * pxSize))]) [0..<12] mat2)"

text \<open>The loop over the visible layers, lines 134 to 138.\<close>

definition drawLayers :: "('l, 'pm) panel \<Rightarrow> ('l, 'pm) glCall list" where
  "drawLayers p =
     (let renderContext =
            \<lparr>rc_dataToDevice = dataToDevice (sliceView p), rc_pickIDs = pickIDs p\<rparr>
      in map (\<lambda>renderLayer. LayerDraw renderLayer renderContext) (visibleLayers p))"

text \<open>The axis-line pass, the body of the \<^verbatim>\<open>if\<close> of lines 140 to 162.\<close>

definition drawAxisLines :: "sliceView \<Rightarrow> ('l, 'pm) glCall list" where
  "drawAxisLines sv =
     [DrawBuffersWEBGL [COLOR_ATTACHMENT0_WEBGL], AxesLineHelperDraw (axisLinesMatrix sv)]"

text \<open>
  \<^verbatim>\<open>draw()\<close>, lines 108 to 178: the calls are appended to the log, the offscreen
  framebuffer is bound at the viewport's size and the scale bar's dimensions are set.
\<close>

definition draw :: "('l, 'pm) panel \<Rightarrow> ('l, 'pm) panel" where
  "draw p =
     (let sv = sliceView p
      in if \<not> hasValidViewport sv then p
         else
           let w = width sv;
               h = height sv
           in p\<lparr>offscreenFramebuffer := bind w h (offscreenFramebuffer p),
                targetLengthInPixels := min (w / 4) 100,
                nanometersPerPixel := pixelSize sv,
                glCalls := glCalls p @
                  [UpdateRendering, FramebufferBind w h, Disable_SCISSOR_TEST,
                   ClearColor 0 0 0 0, Clear_COLOR_BUFFER_BIT,
                   SliceViewRenderHelperDraw identityMat4 colorFactor backgroundColor 0 0 1 1,
                   GetVisibleLayers, PickIDsClear] @
                  drawLayers p @
                  (if showAxisLines p then drawAxisLines sv else []) @
                  [FramebufferUnbind, SetGLViewport, OffscreenCopyHelperDraw COLOR,
                   ScaleBarUpdate]\<rparr>)"

text \<open>The calls one execution of \<^verbatim>\<open>draw()\<close> adds to the log.\<close>

definition drawn :: "('l, 'pm) panel \<Rightarrow> ('l, 'pm) glCall list" where
  "drawn p = drop (length (glCalls p)) (glCalls (draw p))"

text \<open>
  The calls before the pick ID manager is cleared, and the calls after the axis-line
  pass: the two fixed ends of the list \<^verbatim>\<open>draw()\<close> issues.
\<close>

definition drawPrefix :: "('l, 'pm) panel \<Rightarrow> ('l, 'pm) glCall list" where
  "drawPrefix p =
     [UpdateRendering, FramebufferBind (width (sliceView p)) (height (sliceView p)),
      Disable_SCISSOR_TEST, ClearColor 0 0 0 0, Clear_COLOR_BUFFER_BIT,
      SliceViewRenderHelperDraw identityMat4 colorFactor backgroundColor 0 0 1 1,
      GetVisibleLayers]"

definition drawSuffix :: "('l, 'pm) glCall list" where
  "drawSuffix = [FramebufferUnbind, SetGLViewport, OffscreenCopyHelperDraw COLOR, ScaleBarUpdate]"

fun isLayerDraw :: "('l, 'pm) glCall \<Rightarrow> bool" where
  "isLayerDraw (LayerDraw l c) = True"
| "isLayerDraw call = False"

fun isAxesDraw :: "('l, 'pm) glCall \<Rightarrow> bool" where
  "isAxesDraw (AxesLineHelperDraw m) = True"
| "isAxesDraw call = False"

subsection \<open>Draw buffers\<close>

text \<open>
  Modelled from the spec: the GL context and the contents of the offscreen target
  are not part of the panel's source. The spec gives the target two attachments, a
  colour and a pick attachment, that a layer's draw call writes together, and has the
  axis lines drawn into the colour attachment only. The source selects attachments
  with \<^verbatim>\<open>drawBuffersWEBGL\<close>; the state is the list of draw buffers so selected
  and the contents of the attachments, by index.
\<close>

record 'img gpu =
  drawBuffers :: "nat list"
  attachments :: "nat \<Rightarrow> 'img"

text \<open>
  Modelled from the spec: a draw call, which is not part of the panel's source. It
  writes what it paints to attachment \<open>i\<close> when \<^verbatim>\<open>COLOR_ATTACHMENT0_WEBGL + i\<close> is
  among the draw buffers, and leaves every other attachment as it is.
\<close>

definition rasterize :: "(nat \<Rightarrow> 'img \<Rightarrow> 'img) \<Rightarrow> 'img gpu \<Rightarrow> 'img gpu" where
  "rasterize paint g =
     g\<lparr>attachments :=
         (\<lambda>i. if COLOR_ATTACHMENT0_WEBGL + i \<in> set (drawBuffers g)
              then paint i (attachments g i) else attachments g i)\<rparr>"

text \<open>
  Modelled from the spec: the effect of one call of the log on the target.
  \<^verbatim>\<open>drawBuffersWEBGL(bufs)\<close> replaces the list of draw buffers.
  \<^verbatim>\<open>AxesLineHelper.draw\<close>, which is not part of the panel's source, is one draw call
  under the list in force that does not change the list; what it paints is the
  parameter \<open>frag\<close>. Every other call acts through the parameter \<open>ext\<close>.
\<close>

fun glExec ::
  "(mat4 \<Rightarrow> nat \<Rightarrow> 'img \<Rightarrow> 'img) \<Rightarrow> (('l, 'pm) glCall \<Rightarrow> 'img gpu \<Rightarrow> 'img gpu) \<Rightarrow>
   ('l, 'pm) glCall \<Rightarrow> 'img gpu \<Rightarrow> 'img gpu" where
  "glExec frag ext (DrawBuffersWEBGL bufs) g = g\<lparr>drawBuffers := bufs\<rparr>"
| "glExec frag ext (AxesLineHelperDraw mat) g = rasterize (frag mat) g"
| "glExec frag ext call g = ext call g"

definition glRun ::
  "(mat4 \<Rightarrow> nat \<Rightarrow> 'img \<Rightarrow> 'img) \<Rightarrow> (('l, 'pm) glCall \<Rightarrow> 'img gpu \<Rightarrow> 'img gpu) \<Rightarrow>
   ('l, 'pm) glCall list \<Rightarrow> 'img gpu \<Rightarrow> 'img gpu" where
  "glRun frag ext calls g = fold (glExec frag ext) calls g"

subsection \<open>The visible layer tracker's handlers\<close>

text \<open>
  A signal of the \<^verbatim>\<open>signals\<close> package is the list of its bindings, each a listener
  with its context object. \<^verbatim>\<open>add(listener, context)\<close> registers the pair unless it
  is registered already, and \<^verbatim>\<open>remove(listener, context)\<close> deletes its binding.
\<close>

datatype listener = ScheduleRedraw | OtherListener nat

type_synonym binding = "listener \<times> nat"

definition signal_add :: "binding \<Rightarrow> binding list \<Rightarrow> binding list" where
  "signal_add b bindings = (if b \<in> set bindings then bindings else b # bindings)"

definition signal_remove :: "binding \<Rightarrow> binding list \<Rightarrow> binding list" where
  "signal_remove b bindings = remove1 b bindings"

text \<open>
  What the two handlers touch: the \<^verbatim>\<open>redrawNeeded\<close> signal of every layer and the
  number of \<^verbatim>\<open>scheduleRedraw()\<close> calls made so far.
\<close>

record 'l redrawState =
  redrawNeeded :: "'l \<Rightarrow> binding list"
  scheduledRedraws :: nat

text \<open>
  The two arrow functions given to \<^verbatim>\<open>VisibleRenderLayerTracker\<close>, lines 73 to 80,
  for the panel object \<open>this\<close>.
\<close>

definition attachHandler :: "nat \<Rightarrow> 'l \<Rightarrow> 'l redrawState \<Rightarrow> 'l redrawState" where
  "attachHandler this layer s =
     s\<lparr>redrawNeeded :=
         (redrawNeeded s)(layer := signal_add (ScheduleRedraw, this) (redrawNeeded s layer)),
       scheduledRedraws := scheduledRedraws s + 1\<rparr>"

definition detachHandler :: "nat \<Rightarrow> 'l \<Rightarrow> 'l redrawState \<Rightarrow> 'l redrawState" where
  "detachHandler this layer s =
     s\<lparr>redrawNeeded :=
         (redrawNeeded s)(layer := signal_remove (ScheduleRedraw, this) (redrawNeeded s layer)),
       scheduledRedraws := scheduledRedraws s + 1\<rparr>"

text \<open>
  Modelled from the spec: \<^verbatim>\<open>VisibleRenderLayerTracker\<close> is not part of the panel's
  source. The spec has it call the first handler when a layer becomes attached and
  the second when it is detached, so for each layer the events alternate, starting
  from the set of layers attached so far.
\<close>

datatype 'l trackerEvent = Attach 'l | Detach 'l

fun trackerStep :: "nat \<Rightarrow> 'l trackerEvent \<Rightarrow> 'l redrawState \<Rightarrow> 'l redrawState" where
  "trackerStep this (Attach layer) s = attachHandler this layer s"
| "trackerStep this (Detach layer) s = detachHandler this layer s"

definition trackerRun :: "nat \<Rightarrow> 'l trackerEvent list \<Rightarrow> 'l redrawState \<Rightarrow> 'l redrawState" where
  "trackerRun this events s = fold (trackerStep this) events s"

fun attachDetachCycles :: "'l set \<Rightarrow> 'l trackerEvent list \<Rightarrow> bool" where
  "attachDetachCycles A [] = True"
| "attachDetachCycles A (Attach layer # events) =
     (layer \<notin> A \<and> attachDetachCycles (insert layer A) events)"
| "attachDetachCycles A (Detach layer # events) =
     (layer \<in> A \<and> attachDetachCycles (A - {layer}) events)"

fun attachedAfter :: "'l set \<Rightarrow> 'l trackerEvent list \<Rightarrow> 'l set" where
  "attachedAfter A [] = A"
| "attachedAfter A (Attach layer # events) = attachedAfter (insert layer A) events"
| "attachedAfter A (Detach layer # events) = attachedAfter (A - {layer}) events"

text \<open>The number of subscriptions of the panel's redraw callback to a layer's signal.\<close>

definition subscriptions :: "nat \<Rightarrow> 'l redrawState \<Rightarrow> 'l \<Rightarrow> nat" where
  "subscriptions this s layer = count_list (redrawNeeded s layer) (ScheduleRedraw, this)"

section \<open>Example states\<close>

text \<open>
  An 800 by 600 viewport at zoom 1 with the mouse 100 pixels right of and 50 pixels
  below the centre, two visible layers and axis lines shown.
\<close>

definition exampleSliceView :: sliceView where
  "exampleSliceView =
     \<lparr>hasValidViewport = True, width = 800, height = 600,
      dataToDevice = identityMat4, viewportToData = identityMat4,
      viewportAxes = [(1, 0, 0), (0, 1, 0), (0, 0, 1)], pixelSize = 4\<rparr>"

definition exampleNavigationState :: navigationState where
  "exampleNavigationState =
     \<lparr>valid = True, zoomFactor = 1, spatialCoordinates = (0, 0, 0), navCalls = []\<rparr>"

definition examplePanel :: "(nat, nat) panel" where
  "examplePanel =
     \<lparr>sliceView = exampleSliceView, navigationState = exampleNavigationState,
      mouseX = 500, mouseY = 350, showAxisLines = True, visibleLayers = [1, 2],
      offscreenFramebuffer = \<lparr>fbSize = Some (800, 600), pixels = (\<lambda>t x y. 7)\<rparr>,
      pickIDs = 0, targetLengthInPixels = 0, nanometersPerPixel = 0, glCalls = []\<rparr>"

text \<open>The same panel before the navigation state and the viewport are valid.\<close>

definition notReadyPanel :: "(nat, nat) panel" where
  "notReadyPanel =
     examplePanel\<lparr>sliceView := exampleSliceView\<lparr>hasValidViewport := False\<rparr>,
                  navigationState := exampleNavigationState\<lparr>valid := False\<rparr>\<rparr>"












definition rotateEvent :: mouseEvent where
  "rotateEvent = \<lparr>targetIsElement = True, button = 0, shiftKey = True\<rparr>"

definition exampleMouseState :: "nat mouseSelectionState" where
  "exampleMouseState = \<lparr>position = (9, 9, 9), pickedRenderLayer = Some 1, pickedValue = 3\<rparr>"


definition exampleRedrawState :: "nat redrawState" where
  "exampleRedrawState = \<lparr>redrawNeeded = (\<lambda>layer. [(OtherListener 0, 9)]), scheduledRedraws = 0\<rparr>"

definition exampleEvents :: "nat trackerEvent list" where
  "exampleEvents = [Attach 1, Attach 2, Detach 1, Attach 1, Detach 1, Detach 2]"

text \<open>
  A target whose two attachments are both draw buffers and hold 0 everywhere; every
  draw call adds one to what it writes, every other call leaves the target alone.
\<close>

definition exampleGpu :: "nat gpu" where
  "exampleGpu =
     \<lparr>drawBuffers = [COLOR_ATTACHMENT0_WEBGL, COLOR_ATTACHMENT0_WEBGL + 1],
      attachments = (\<lambda>i. 0)\<rparr>"

definition exampleFrag :: "mat4 \<Rightarrow> nat \<Rightarrow> nat \<Rightarrow> nat" where
  "exampleFrag mat i img = Suc img"

definition exampleExt :: "(nat, nat) glCall \<Rightarrow> nat gpu \<Rightarrow> nat gpu" where
  "exampleExt call g = g"

section \<open>Properties\<close>

subsection \<open>Auxiliary facts\<close>

text \<open>Rounding to float32: how to evaluate it, and the numbers it leaves alone.\<close>

lemma roundTiesToEven_of_int: "roundTiesToEven (of_int k) = k"
  by (simp add: roundTiesToEven_def)

lemma f32_eval:
  assumes "2 powi e \<le> \<bar>x\<bar>" and "\<bar>x\<bar> < 2 powi (e + 1)" and "- 126 \<le> e"
  shows "f32 x = of_int (roundTiesToEven (x / 2 powi (e - 23))) * 2 powi (e - 23)"
proof -
  have pos: "0 < \<bar>x\<bar>"
    using assms(1) by (smt (verit) zero_less_power_int)
  have "2 powr (real_of_int e + 1) = 2 powi (e + 1)"
    using powr_real_of_int' [of 2 "e + 1"] by simp
  moreover have "2 powr real_of_int e = 2 powi e"
    using powr_real_of_int' [of 2 e] by simp
  ultimately have "\<lfloor>log 2 \<bar>x\<bar>\<rfloor> = e"
    using assms pos by (simp add: floor_log_eq_powr_iff)
  then show ?thesis
    using pos assms(3) by (simp add: f32_def Let_def max_def)
qed

lemma f32_of_int:
  assumes "\<bar>m\<bar> < 2 ^ 24"
  shows "f32 (of_int m) = of_int m"
proof (cases "m = 0")
  case True
  then show ?thesis by (simp add: f32_def)
next
  case False
  define x :: real where "x = of_int m"
  define e where "e = \<lfloor>log 2 \<bar>x\<bar>\<rfloor>"
  have x1: "1 \<le> \<bar>x\<bar>" using False by (simp add: x_def)
  have x2: "\<bar>x\<bar> < 2 ^ 24" using assms by (simp add: x_def)
  have "0 \<le> log 2 \<bar>x\<bar>" using x1 by simp
  then have e0: "0 \<le> e" by (simp add: e_def)
  have "log 2 \<bar>x\<bar> < 24"
    using x1 x2 by (subst log_less_iff) (simp_all add: powr_numeral)
  then have e23: "e \<le> 23" by (simp add: e_def floor_le_iff)
  define k where "k = nat (23 - e)"
  have ulp: "(2::real) powi (e - 23) = 1 / 2 ^ k"
    using e23 by (simp add: k_def power_int_def field_simps)
  have pos: "0 < \<bar>x\<bar>" using x1 by simp
  have "2 powr real_of_int e \<le> \<bar>x\<bar> \<and> \<bar>x\<bar> < 2 powr (real_of_int e + 1)"
    using floor_log_eq_powr_iff [of "\<bar>x\<bar>" 2 e] pos by (simp add: e_def)
  moreover have "2 powr (real_of_int e + 1) = 2 powi (e + 1)"
    using powr_real_of_int' [of 2 "e + 1"] by simp
  moreover have "2 powr real_of_int e = 2 powi e"
    using powr_real_of_int' [of 2 e] by simp
  ultimately have "f32 x = of_int (roundTiesToEven (x / 2 powi (e - 23))) * 2 powi (e - 23)"
    using e0 by (intro f32_eval) simp_all
  also have "x / 2 powi (e - 23) = of_int (m * 2 ^ k)"
    by (simp add: ulp x_def)
  also have "of_int (roundTiesToEven (of_int (m * 2 ^ k))) * 2 powi (e - 23) = x"
    by (simp only: roundTiesToEven_of_int ulp) (simp add: x_def)
  finally show ?thesis by (simp add: x_def)
qed

lemma f32_0 [simp]: "f32 0 = 0"
  by (simp add: f32_def)

lemma f32_1 [simp]: "f32 1 = 1"
  using f32_of_int [of 1] by simp

lemma f32_numeral [simp]: "numeral n < (2::int) ^ 24 \<Longrightarrow> f32 (numeral n) = numeral n"
  using f32_of_int [of "numeral n"] by simp

lemma f32_neg_numeral [simp]:
  "numeral n < (2::int) ^ 24 \<Longrightarrow> f32 (- numeral n) = - numeral n"
  using f32_of_int [of "- numeral n"] by simp






text \<open>Where an element with a property can stand in a list made of two parts.\<close>

lemma nth_append_not_left:
  assumes "j < length (xs @ ys)" and "P ((xs @ ys) ! j)" and "filter P xs = []"
  shows "length xs \<le> j"
proof (rule ccontr)
  assume "\<not> length xs \<le> j"
  then have lt: "j < length xs" by simp
  then have "(xs @ ys) ! j = xs ! j" by (simp add: nth_append)
  moreover from lt have "xs ! j \<in> set xs" by simp
  ultimately have "\<exists>x\<in>set xs. P x" using assms(2) by auto
  with assms(3) show False by (simp add: filter_empty_conv)
qed

lemma nth_append_not_right:
  assumes "j < length (xs @ ys)" and "P ((xs @ ys) ! j)" and "filter P ys = []"
  shows "j < length xs"
proof (rule ccontr)
  assume "\<not> j < length xs"
  then have ge: "length xs \<le> j" by simp
  then have "(xs @ ys) ! j = ys ! (j - length xs)" by (simp add: nth_append)
  moreover from ge assms(1) have "ys ! (j - length xs) \<in> set ys" by simp
  ultimately have "\<exists>y\<in>set ys. P y" using assms(2) by auto
  with assms(3) show False by (simp add: filter_empty_conv)
qed

text \<open>The list of calls of one \<^verbatim>\<open>draw()\<close> with a valid viewport, in its parts.\<close>

lemma filter_isLayerDraw_drawLayers: "filter isLayerDraw (drawLayers p) = drawLayers p"
  by (simp add: drawLayers_def Let_def filter_map comp_def)

lemma filter_isAxesDraw_drawLayers: "filter isAxesDraw (drawLayers p) = []"
  by (simp add: drawLayers_def Let_def filter_map comp_def)

lemma length_drawLayers: "length (drawLayers p) = length (visibleLayers p)"
  by (simp add: drawLayers_def Let_def)

lemma drawn_valid:
  "hasValidViewport (sliceView p) \<Longrightarrow>
     drawn p = drawPrefix p @ [PickIDsClear] @ drawLayers p @
       (if showAxisLines p then drawAxisLines (sliceView p) else []) @ drawSuffix"
  by (simp add: drawn_def draw_def Let_def drawPrefix_def drawSuffix_def)

text \<open>What the axis-line pass does to the offscreen target.\<close>

lemma glRun_drawAxisLines:
  "glRun frag ext (drawAxisLines sv) g =
     g\<lparr>drawBuffers := [COLOR_ATTACHMENT0_WEBGL],
       attachments := (\<lambda>i. if i = 0 then frag (axisLinesMatrix sv) i (attachments g i)
                            else attachments g i)\<rparr>"
  by (simp add: glRun_def drawAxisLines_def rasterize_def fun_eq_iff)

text \<open>The handlers' effect on the number of subscriptions and on other bindings.\<close>

lemma count_list_remove1_same: "count_list (remove1 x xs) x = count_list xs x - 1"
  by (induction xs) auto

lemma count_list_remove1_other: "y \<noteq> x \<Longrightarrow> count_list (remove1 x xs) y = count_list xs y"
  by (induction xs) auto

lemma subscriptions_attach:
  "subscriptions this (attachHandler this layer s) l =
     (if l = layer then (if subscriptions this s l = 0 then 1 else subscriptions this s l)
      else subscriptions this s l)"
  by (auto simp add: subscriptions_def attachHandler_def signal_add_def count_list_0_iff)

lemma subscriptions_detach:
  "subscriptions this (detachHandler this layer s) l =
     (if l = layer then subscriptions this s l - 1 else subscriptions this s l)"
  by (simp add: subscriptions_def detachHandler_def signal_remove_def count_list_remove1_same)

lemma others_attach:
  "b \<noteq> (ScheduleRedraw, this) \<Longrightarrow>
     count_list (redrawNeeded (attachHandler this layer s) l) b = count_list (redrawNeeded s l) b"
  by (simp add: attachHandler_def signal_add_def)

lemma others_detach:
  "b \<noteq> (ScheduleRedraw, this) \<Longrightarrow>
     count_list (redrawNeeded (detachHandler this layer s) l) b = count_list (redrawNeeded s l) b"
  by (simp add: detachHandler_def signal_remove_def count_list_remove1_other)

lemma scheduled_step: "scheduledRedraws (trackerStep this e s) = scheduledRedraws s + 1"
  by (cases e) (simp_all add: attachHandler_def detachHandler_def)

lemma trackerRun_Nil: "trackerRun this [] s = s"
  by (simp add: trackerRun_def)

lemma trackerRun_Cons: "trackerRun this (e # es) s = trackerRun this es (trackerStep this e s)"
  by (simp add: trackerRun_def)

lemma trackerRun_scheduled:
  "scheduledRedraws (trackerRun this events s) = scheduledRedraws s + length events"
  by (induction events arbitrary: s) (simp_all add: trackerRun_Nil trackerRun_Cons scheduled_step)

lemma trackerRun_others:
  "b \<noteq> (ScheduleRedraw, this) \<Longrightarrow>
     count_list (redrawNeeded (trackerRun this events s) l) b = count_list (redrawNeeded s l) b"
proof (induction events arbitrary: s)
  case Nil
  then show ?case by (simp add: trackerRun_Nil)
next
  case (Cons e es)
  then show ?case
    by (cases e) (simp_all add: trackerRun_Cons others_attach others_detach)
qed

lemma trackerRun_subscriptions:
  "attachDetachCycles A events \<Longrightarrow>
   (\<And>l. subscriptions this s l = (if l \<in> A then 1 else 0)) \<Longrightarrow>
   subscriptions this (trackerRun this events s) l =
     (if l \<in> attachedAfter A events then 1 else 0)"
proof (induction events arbitrary: A s)
  case Nil
  then show ?case by (simp add: trackerRun_Nil)
next
  case (Cons e es)
  show ?case
  proof (cases e)
    case (Attach layer)
    with Cons.prems have notin: "layer \<notin> A" and rest: "attachDetachCycles (insert layer A) es"
      by simp_all
    have "\<And>l. subscriptions this (attachHandler this layer s) l =
            (if l \<in> insert layer A then 1 else 0)"
      using Cons.prems(2) notin by (simp add: subscriptions_attach)
    from Cons.IH [OF rest this] show ?thesis
      by (simp add: Attach trackerRun_Cons)
  next
    case (Detach layer)
    with Cons.prems have isin: "layer \<in> A" and rest: "attachDetachCycles (A - {layer}) es"
      by simp_all
    have "\<And>l. subscriptions this (detachHandler this layer s) l =
            (if l \<in> A - {layer} then 1 else 0)"
      using Cons.prems(2) isin by (simp add: subscriptions_detach)
    from Cons.IH [OF rest this] show ?thesis
      by (simp add: Detach trackerRun_Cons)
  qed
qed

lemma attachDetachCycles_take:
  "attachDetachCycles A events \<Longrightarrow> attachDetachCycles A (take n events)"
proof (induction events arbitrary: A n)
  case Nil
  then show ?case by simp
next
  case (Cons e es)
  then show ?case
    by (cases n; cases e) simp_all
qed

subsection \<open>Navigation\<close>




text \<open>
  C3, as the source has it. A drag callback with the shift key held, for the deltas
  \<open>(totalDx, totalDy)\<close> it receives, issues exactly two \<^verbatim>\<open>rotateAbsolute\<close> calls
  anchored at the position captured when the drag started: first around
  \<^verbatim>\<open>viewportAxes[1]\<close> by \<open>totalDx / 4\<close> degrees, then around \<^verbatim>\<open>viewportAxes[0]\<close>
  by \<open>totalDy / 4\<close> degrees. Nothing else of the panel changes.
\<close>

theorem dragCallback_rotate:
  "shiftKey event \<Longrightarrow> onMousedown e updated p0 = Some initialPosition \<Longrightarrow>
     initialPosition = position (snd updated) \<and>
     dragCallback initialPosition event totalDx totalDy p =
       p\<lparr>navigationState :=
           (navigationState p)
             \<lparr>navCalls := navCalls (navigationState p) @
                [RotateAbsolute (viewportAxes (sliceView p) ! 1) (degrees (totalDx / 4))
                   initialPosition,
                 RotateAbsolute (viewportAxes (sliceView p) ! 0) (degrees (totalDy / 4))
                   initialPosition]\<rparr>\<rparr>"
  by (auto simp add: dragCallback_def onMousedown_def degrees_def Let_def split: if_splits)

theorem dragCallback_rotate_witness:
  "shiftKey rotateEvent \<and>
   onMousedown rotateEvent (True, exampleMouseState) examplePanel = Some (9, 9, 9) \<and>
   navCalls (navigationState (dragCallback (9, 9, 9) rotateEvent 40 0 examplePanel)) =
     [RotateAbsolute (0, 1, 0) (degrees 10) (9, 9, 9),
      RotateAbsolute (1, 0, 0) (degrees 0) (9, 9, 9)]"
  using dragCallback_rotate
          [of rotateEvent rotateEvent "(True, exampleMouseState)" examplePanel "(9, 9, 9)" 40 0
              examplePanel]
  by (simp add: rotateEvent_def exampleMouseState_def examplePanel_def exampleSliceView_def
        exampleNavigationState_def onMousedown_def)

text \<open>
  C3 as stated pairs \<^verbatim>\<open>viewportAxes[0]\<close> with \<open>totalDx\<close> and \<^verbatim>\<open>viewportAxes[1]\<close>
  with \<open>totalDy\<close>. For the deltas \<open>(40, 0)\<close> and the axes \<open>(1, 0, 0)\<close>, \<open>(0, 1, 0)\<close> the
  calls issued are not those two: the 10 degree rotation goes around \<open>(0, 1, 0)\<close>.
\<close>

theorem dragCallback_rotate_counterexample:
  "set (navCalls (navigationState (dragCallback (9, 9, 9) rotateEvent 40 0 examplePanel))) \<noteq>
     {RotateAbsolute (viewportAxes (sliceView examplePanel) ! 0) (degrees (40 / 4)) (9, 9, 9),
      RotateAbsolute (viewportAxes (sliceView examplePanel) ! 1) (degrees (0 / 4)) (9, 9, 9)}"
proof
  assume eq:
    "set (navCalls (navigationState (dragCallback (9, 9, 9) rotateEvent 40 0 examplePanel))) =
       {RotateAbsolute (viewportAxes (sliceView examplePanel) ! 0) (degrees (40 / 4)) (9, 9, 9),
        RotateAbsolute (viewportAxes (sliceView examplePanel) ! 1) (degrees (0 / 4)) (9, 9, 9)}"
  have "RotateAbsolute (0, 1, 0) (degrees 10) (9, 9, 9) \<in>
          set (navCalls (navigationState (dragCallback (9, 9, 9) rotateEvent 40 0 examplePanel)))"
    by (simp add: dragCallback_def rotateEvent_def examplePanel_def exampleSliceView_def
          exampleNavigationState_def degrees_def Let_def)
  with eq show False
    by (simp add: examplePanel_def exampleSliceView_def degrees_def)
qed




subsection \<open>Hit testing\<close>




subsection \<open>Drawing\<close>

text \<open>
  C6. In a \<^verbatim>\<open>draw()\<close> with a valid viewport the pick ID manager is cleared before
  every layer draw; the layer draws are those of the visible layers, in the tracker's
  order, each with the context made of \<^verbatim>\<open>dataToDevice\<close> and the panel's pick ID
  manager; the axis lines are drawn only when enabled, once, and then after every
  layer draw.
\<close>

theorem draw_order:
  assumes valid: "hasValidViewport (sliceView p)"
  shows
  "(\<exists>k<length (drawn p). drawn p ! k = PickIDsClear \<and>
      (\<forall>j<length (drawn p). isLayerDraw (drawn p ! j) \<longrightarrow> k < j)) \<and>
   filter isLayerDraw (drawn p) =
     map (\<lambda>renderLayer. LayerDraw renderLayer
            \<lparr>rc_dataToDevice = dataToDevice (sliceView p), rc_pickIDs = pickIDs p\<rparr>)
       (visibleLayers p) \<and>
   filter isAxesDraw (drawn p) =
     (if showAxisLines p then [AxesLineHelperDraw (axisLinesMatrix (sliceView p))] else []) \<and>
   (showAxisLines p \<longrightarrow>
      (\<exists>a<length (drawn p). drawn p ! a = AxesLineHelperDraw (axisLinesMatrix (sliceView p)) \<and>
         (\<forall>j<length (drawn p). isLayerDraw (drawn p ! j) \<longrightarrow> j < a)))"
proof -
  let ?ov = "if showAxisLines p then drawAxisLines (sliceView p) else []"
  have d: "drawn p = drawPrefix p @ [PickIDsClear] @ drawLayers p @ ?ov @ drawSuffix"
    using valid by (rule drawn_valid)
  have clear: "\<exists>k<length (drawn p). drawn p ! k = PickIDsClear \<and>
      (\<forall>j<length (drawn p). isLayerDraw (drawn p ! j) \<longrightarrow> k < j)"
  proof (intro exI [of _ 7] conjI allI impI)
    show "7 < length (drawn p)" by (simp add: d drawPrefix_def)
    show "drawn p ! 7 = PickIDsClear" by (simp add: d drawPrefix_def nth_append)
  next
    fix j assume j: "j < length (drawn p)" and l: "isLayerDraw (drawn p ! j)"
    have split: "drawn p = (drawPrefix p @ [PickIDsClear]) @ (drawLayers p @ ?ov @ drawSuffix)"
      by (simp add: d)
    have "length (drawPrefix p @ [PickIDsClear]) \<le> j"
      by (rule nth_append_not_left [where P = isLayerDraw and ys = "drawLayers p @ ?ov @ drawSuffix"])
         (use j l split in \<open>simp_all add: drawPrefix_def\<close>)
    then show "7 < j" by (simp add: drawPrefix_def)
  qed
  have layers: "filter isLayerDraw (drawn p) =
     map (\<lambda>renderLayer. LayerDraw renderLayer
            \<lparr>rc_dataToDevice = dataToDevice (sliceView p), rc_pickIDs = pickIDs p\<rparr>)
       (visibleLayers p)"
    by (simp add: d drawPrefix_def drawSuffix_def drawAxisLines_def filter_isLayerDraw_drawLayers)
       (simp add: drawLayers_def)
  have axes: "filter isAxesDraw (drawn p) =
     (if showAxisLines p then [AxesLineHelperDraw (axisLinesMatrix (sliceView p))] else [])"
    by (simp add: d drawPrefix_def drawSuffix_def drawAxisLines_def filter_isAxesDraw_drawLayers)
  have after: "\<exists>a<length (drawn p). drawn p ! a = AxesLineHelperDraw (axisLinesMatrix (sliceView p)) \<and>
         (\<forall>j<length (drawn p). isLayerDraw (drawn p ! j) \<longrightarrow> j < a)" if ax: "showAxisLines p"
  proof (intro exI [of _ "9 + length (visibleLayers p)"] conjI allI impI)
    have split: "drawn p = (drawPrefix p @ [PickIDsClear] @ drawLayers p) @
        (drawAxisLines (sliceView p) @ drawSuffix)"
      using ax by (simp add: d)
    show "9 + length (visibleLayers p) < length (drawn p)"
      using ax by (simp add: d drawPrefix_def drawSuffix_def drawAxisLines_def length_drawLayers)
    show "drawn p ! (9 + length (visibleLayers p)) = AxesLineHelperDraw (axisLinesMatrix (sliceView p))"
      by (simp add: split nth_append drawPrefix_def length_drawLayers drawAxisLines_def)
    fix j assume j: "j < length (drawn p)" and l: "isLayerDraw (drawn p ! j)"
    have "j < length (drawPrefix p @ [PickIDsClear] @ drawLayers p)"
      by (rule nth_append_not_right [where P = isLayerDraw and ys = "drawAxisLines (sliceView p) @ drawSuffix"])
         (use j l split in \<open>simp_all add: drawAxisLines_def drawSuffix_def\<close>)
    then show "j < 9 + length (visibleLayers p)"
      by (simp add: drawPrefix_def length_drawLayers)
  qed
  from clear layers axes after show ?thesis by blast
qed

theorem draw_order_witness:
  "hasValidViewport (sliceView examplePanel) \<and> showAxisLines examplePanel \<and>
   drawn examplePanel ! 7 = PickIDsClear \<and>
   filter isLayerDraw (drawn examplePanel) =
     [LayerDraw 1 \<lparr>rc_dataToDevice = identityMat4, rc_pickIDs = 0\<rparr>,
      LayerDraw 2 \<lparr>rc_dataToDevice = identityMat4, rc_pickIDs = 0\<rparr>] \<and>
   drawn examplePanel ! 8 = LayerDraw 1 \<lparr>rc_dataToDevice = identityMat4, rc_pickIDs = 0\<rparr> \<and>
   drawn examplePanel ! 9 = LayerDraw 2 \<lparr>rc_dataToDevice = identityMat4, rc_pickIDs = 0\<rparr> \<and>
   drawn examplePanel ! 11 = AxesLineHelperDraw (axisLinesMatrix exampleSliceView) \<and>
   filter isAxesDraw (drawn examplePanel) = [AxesLineHelperDraw (axisLinesMatrix exampleSliceView)]"
  using draw_order [of examplePanel]
  by (simp add: examplePanel_def exampleSliceView_def drawn_def draw_def drawLayers_def
        drawAxisLines_def Let_def)

text \<open>
  C7. In a \<^verbatim>\<open>draw()\<close> with a valid viewport and axis lines enabled, over \<open>n\<close>
  visible layers: call \<open>8 + n\<close> selects the colour attachment as the only draw buffer,
  call \<open>9 + n\<close> is the one axis-line draw, and on any state of the offscreen target
  every attachment but the colour attachment, the pick attachment among them, is
  after the axis-line draw what it was before the two calls.
\<close>

theorem axis_lines_color_only:
  assumes valid: "hasValidViewport (sliceView p)" and ax: "showAxisLines p"
  shows
  "drawn p ! (8 + length (visibleLayers p)) = DrawBuffersWEBGL [COLOR_ATTACHMENT0_WEBGL] \<and>
   drawn p ! (9 + length (visibleLayers p)) = AxesLineHelperDraw (axisLinesMatrix (sliceView p)) \<and>
   filter isAxesDraw (drawn p) = [AxesLineHelperDraw (axisLinesMatrix (sliceView p))] \<and>
   (\<forall>i. i \<noteq> COLOR \<longrightarrow>
      attachments (glRun frag ext (take (10 + length (visibleLayers p)) (drawn p)) g) i =
      attachments (glRun frag ext (take (8 + length (visibleLayers p)) (drawn p)) g) i) \<and>
   attachments (glRun frag ext (take (10 + length (visibleLayers p)) (drawn p)) g) PICK =
   attachments (glRun frag ext (take (8 + length (visibleLayers p)) (drawn p)) g) PICK"
proof -
  let ?before = "drawPrefix p @ [PickIDsClear] @ drawLayers p"
  have d: "drawn p = ?before @ drawAxisLines (sliceView p) @ drawSuffix"
    using valid ax by (simp add: drawn_valid)
  have len: "length ?before = 8 + length (visibleLayers p)"
    by (simp add: drawPrefix_def length_drawLayers)
  have t8: "take (8 + length (visibleLayers p)) (drawn p) = ?before"
    by (metis d len append_eq_conv_conj)
  have d2: "drawn p = (?before @ drawAxisLines (sliceView p)) @ drawSuffix"
    by (simp add: d)
  have len2: "length (?before @ drawAxisLines (sliceView p)) = 10 + length (visibleLayers p)"
    by (simp add: drawPrefix_def length_drawLayers drawAxisLines_def)
  have t10:
    "take (10 + length (visibleLayers p)) (drawn p) = ?before @ drawAxisLines (sliceView p)"
    by (metis d2 len2 append_eq_conv_conj)
  have run: "glRun frag ext (?before @ drawAxisLines (sliceView p)) g =
               glRun frag ext (drawAxisLines (sliceView p)) (glRun frag ext ?before g)"
    by (simp add: glRun_def)
  have i8: "drawn p ! (8 + length (visibleLayers p)) = DrawBuffersWEBGL [COLOR_ATTACHMENT0_WEBGL]"
    using nth_append_length [of ?before] by (simp add: d len [symmetric] drawAxisLines_def)
  have i9: "drawn p ! (9 + length (visibleLayers p)) =
              AxesLineHelperDraw (axisLinesMatrix (sliceView p))"
    by (simp add: d nth_append drawPrefix_def length_drawLayers drawAxisLines_def)
  have axes: "filter isAxesDraw (drawn p) = [AxesLineHelperDraw (axisLinesMatrix (sliceView p))]"
    by (simp add: d drawPrefix_def drawSuffix_def drawAxisLines_def filter_isAxesDraw_drawLayers)
  show ?thesis
    by (simp only: t8 t10 run i8 i9 axes) (simp add: glRun_drawAxisLines COLOR_def PICK_def)
qed

text \<open>
  With two visible layers the two calls are calls 10 and 11; run from a target whose
  attachments hold 0, with layer draws writing nothing, the colour attachment ends at
  1 and the pick attachment at 0.
\<close>

theorem axis_lines_color_only_witness:
  "hasValidViewport (sliceView examplePanel) \<and> showAxisLines examplePanel \<and>
   drawn examplePanel ! 10 = DrawBuffersWEBGL [COLOR_ATTACHMENT0_WEBGL] \<and>
   attachments (glRun exampleFrag exampleExt (take 12 (drawn examplePanel)) exampleGpu) PICK = 0 \<and>
   attachments (glRun exampleFrag exampleExt (take 12 (drawn examplePanel)) exampleGpu) COLOR = 1"
  using axis_lines_color_only [of examplePanel exampleFrag exampleExt exampleGpu]
  by (simp add: examplePanel_def exampleSliceView_def drawn_def draw_def drawLayers_def
        drawAxisLines_def Let_def glRun_def rasterize_def COLOR_def PICK_def exampleGpu_def
        exampleFrag_def exampleExt_def)

text \<open>
  C8. With an invalid viewport \<^verbatim>\<open>draw()\<close> returns at once: the panel is as it was
  (the framebuffer is not bound or resized, the scale bar is not touched) and no call
  is issued, so nothing is rendered, the pick ID manager is not cleared and no layer
  is drawn.
\<close>

theorem draw_not_ready:
  "\<not> hasValidViewport (sliceView p) \<Longrightarrow> draw p = p \<and> drawn p = []"
  by (simp add: draw_def drawn_def)

theorem draw_not_ready_witness:
  "\<not> hasValidViewport (sliceView notReadyPanel) \<and> draw notReadyPanel = notReadyPanel \<and>
   drawn notReadyPanel = []"
  using draw_not_ready [of notReadyPanel]
  by (simp add: notReadyPanel_def examplePanel_def exampleSliceView_def)

text \<open>
  C10. After a \<^verbatim>\<open>draw()\<close> with a valid viewport the scale bar's
  \<^verbatim>\<open>targetLengthInPixels\<close> is \<open>min (width / 4) 100\<close>, hence at most 100, its
  \<^verbatim>\<open>nanometersPerPixel\<close> is the slice view's \<^verbatim>\<open>pixelSize\<close>, and the widget's
  update is the last call issued.
\<close>

theorem draw_scale_bar:
  "hasValidViewport (sliceView p) \<Longrightarrow>
     targetLengthInPixels (draw p) = min (width (sliceView p) / 4) 100 \<and>
     nanometersPerPixel (draw p) = pixelSize (sliceView p) \<and>
     targetLengthInPixels (draw p) \<le> 100 \<and>
     last (glCalls (draw p)) = ScaleBarUpdate"
  by (simp add: draw_def Let_def)

theorem draw_scale_bar_witness:
  "hasValidViewport (sliceView examplePanel) \<and>
   targetLengthInPixels (draw examplePanel) = 100 \<and>
   nanometersPerPixel (draw examplePanel) = 4"
  using draw_scale_bar [of examplePanel]
  by (simp add: examplePanel_def exampleSliceView_def)

subsection \<open>Redraw subscriptions\<close>

text \<open>
  C9. Through any sequence of attach and detach cycles that starts with one
  subscription of the panel's callback on every attached layer and none elsewhere:
  at every point each attached layer carries exactly one such subscription and every
  other layer none, every handler call schedules exactly one redraw, the bindings of
  other listeners are untouched, and no subscription is left once every layer is
  detached. The attach handler takes a layer from no subscription to one, the detach
  handler from one to none, and each schedules one redraw.
\<close>

theorem tracker_subscriptions:
  assumes cycles: "attachDetachCycles A events"
    and init: "\<forall>l. subscriptions this s l = (if l \<in> A then 1 else 0)"
  shows
  "(\<forall>n l. subscriptions this (trackerRun this (take n events) s) l =
           (if l \<in> attachedAfter A (take n events) then 1 else 0)) \<and>
   (\<forall>n. scheduledRedraws (trackerRun this (take n events) s) =
        scheduledRedraws s + min (length events) n) \<and>
   (\<forall>n l b. b \<noteq> (ScheduleRedraw, this) \<longrightarrow>
      count_list (redrawNeeded (trackerRun this (take n events) s) l) b =
      count_list (redrawNeeded s l) b) \<and>
   (attachedAfter A events = {} \<longrightarrow>
      (\<forall>l. subscriptions this (trackerRun this events s) l = 0)) \<and>
   (\<forall>layer t. subscriptions this t layer = 0 \<longrightarrow>
      subscriptions this (attachHandler this layer t) layer = 1 \<and>
      scheduledRedraws (attachHandler this layer t) = scheduledRedraws t + 1) \<and>
   (\<forall>layer t. subscriptions this t layer = 1 \<longrightarrow>
      subscriptions this (detachHandler this layer t) layer = 0 \<and>
      scheduledRedraws (detachHandler this layer t) = scheduledRedraws t + 1)"
proof -
  have sub: "subscriptions this (trackerRun this (take n events) s) l =
           (if l \<in> attachedAfter A (take n events) then 1 else 0)" for n l
    using attachDetachCycles_take [OF cycles, of n] init
    by (intro trackerRun_subscriptions) simp_all
  have final: "subscriptions this (trackerRun this events s) l =
           (if l \<in> attachedAfter A events then 1 else 0)" for l
    using cycles init by (intro trackerRun_subscriptions) simp_all
  have att: "scheduledRedraws (attachHandler this layer t) = scheduledRedraws t + 1" for layer t
    by (simp add: attachHandler_def)
  have det: "scheduledRedraws (detachHandler this layer t) = scheduledRedraws t + 1" for layer t
    by (simp add: detachHandler_def)
  show ?thesis
    by (simp add: sub final trackerRun_scheduled trackerRun_others subscriptions_attach
          subscriptions_detach att det)
qed

theorem tracker_subscriptions_witness:
  "attachDetachCycles {} exampleEvents \<and>
   (\<forall>l. subscriptions 0 exampleRedrawState l = 0) \<and>
   subscriptions 0 (trackerRun 0 (take 1 exampleEvents) exampleRedrawState) 1 = 1 \<and>
   subscriptions 0 (trackerRun 0 (take 4 exampleEvents) exampleRedrawState) 1 = 1 \<and>
   subscriptions 0 (trackerRun 0 (take 5 exampleEvents) exampleRedrawState) 1 = 0 \<and>
   subscriptions 0 (trackerRun 0 (take 5 exampleEvents) exampleRedrawState) 2 = 1 \<and>
   subscriptions 0 (trackerRun 0 exampleEvents exampleRedrawState) 1 = 0 \<and>
   subscriptions 0 (trackerRun 0 exampleEvents exampleRedrawState) 2 = 0 \<and>
   scheduledRedraws (trackerRun 0 exampleEvents exampleRedrawState) = 6"
  using tracker_subscriptions [of "{}" exampleEvents 0 exampleRedrawState]
  by (simp add: exampleEvents_def exampleRedrawState_def subscriptions_def trackerRun_def
        attachHandler_def detachHandler_def signal_add_def signal_remove_def)

end
